theory Spec2Isabelle
  imports Complex_Main
begin

section \<open>Data model (the five mongoose schemas)\<close>

text \<open>
  An ObjectId is an opaque identifier; it is modelled as a natural number. Dates are
  milliseconds since the epoch. A field of a JSON request body that may be absent
  (\<open>undefined\<close>) is an \<open>option\<close>. Record fields carry a prefix, since the schemas share
  field names (\<open>name\<close>, \<open>status\<close>, \<open>complaintId\<close>).
\<close>

type_synonym oid = nat

record attachment =
  att_path :: string
  att_name :: "string option"
  att_originalName :: "string option"

record user =
  u_id :: oid
  u_name :: string
  u_email :: string
  u_password :: string
  u_phone :: string
  u_userType :: string
  u_createdAt :: nat

record complaint =
  c_id :: oid
  c_userId :: oid
  c_name :: string
  c_address :: string
  c_city :: string
  c_state :: string
  c_pincode :: string
  c_comment :: string
  c_attachments :: "attachment list"
  c_status :: string
  c_createdAt :: nat

record assigned =
  a_id :: oid
  a_agentId :: oid
  a_complaintId :: oid
  a_agentName :: string
  a_status :: string
  a_assignedAt :: nat

record message =
  m_id :: oid
  m_complaintId :: oid
  m_name :: string
  m_message :: string
  m_attachments :: "attachment list"
  m_read :: bool
  m_sentAt :: nat

text \<open>\<open>rating\<close> has the schema type Number: a JSON number, here a rational.\<close>

record feedback =
  f_id :: oid
  f_userId :: oid
  f_complaintId :: oid
  f_agentId :: "oid option"
  f_rating :: rat
  f_comment :: "string option"
  f_createdAt :: nat

section \<open>The server state\<close>

text \<open>
  The payload of a broadcast is a complaint document (\<open>null\<close> when a lookup found
  none) or a bare identifier. \<open>emitted\<close> is the log of the calls of \<open>io.emit\<close>, oldest
  first. The collections are lists in store order.
\<close>

datatype payload = PComplaint "complaint option" | PId oid

type_synonym event = "string \<times> payload"

record server =
  users :: "user list"
  complaints :: "complaint list"
  assignments :: "assigned list"
  messages :: "message list"
  feedbacks :: "feedback list"
  emitted :: "event list"

text \<open>
  What \<open>save\<close> can throw: a schema validation error (it has no \<open>code\<close>), or the
  duplicate-key error of a unique index (\<open>code\<close> 11000). \<open>BcryptError\<close> is what
  \<open>bcrypt\<close> throws on a missing argument.
\<close>

datatype store_error = ValidationError | DuplicateKey | BcryptError

fun err_code :: "store_error \<Rightarrow> nat option" where
  "err_code DuplicateKey = Some 11000"
| "err_code ValidationError = None"
| "err_code BcryptError = None"

text \<open>
  A response: \<open>Reply status body\<close> is \<open>res.status(status).json(body)\<close> with a result,
  \<open>Rejected status e\<close> is \<open>res.status(status).json({ error: e })\<close>, where the text is a
  literal of the source (\<open>Msg\<close>) or the \<open>message\<close> of a caught exception (\<open>Thrown\<close>).
\<close>

datatype errmsg = Msg string | Thrown store_error

datatype 'a reply = Reply nat 'a | Rejected nat errmsg

section \<open>Queries\<close>

text \<open>\<open>Complaint.findById\<close>; an undefined id matches no document.\<close>

definition findById :: "oid option \<Rightarrow> complaint list \<Rightarrow> complaint option" where
  "findById i cs = find (\<lambda>c. Some (c_id c) = i) cs"

text \<open>\<open>Complaint.findByIdAndUpdate(id, { status: v })\<close>: the one document with that id.\<close>

fun findByIdAndUpdate_status :: "oid option \<Rightarrow> string \<Rightarrow> complaint list \<Rightarrow> complaint list" where
  "findByIdAndUpdate_status i v [] = []"
| "findByIdAndUpdate_status i v (c # cs) =
     (if Some (c_id c) = i then c\<lparr>c_status := v\<rparr> # cs
      else c # findByIdAndUpdate_status i v cs)"

text \<open>\<open>Assigned.findOne({ complaintId })\<close> and \<open>Assigned.find({ agentId })\<close>.\<close>

definition findOne_complaintId :: "oid option \<Rightarrow> assigned list \<Rightarrow> assigned option" where
  "findOne_complaintId k as = find (\<lambda>a. Some (a_complaintId a) = k) as"

definition find_agentId :: "oid option \<Rightarrow> assigned list \<Rightarrow> assigned list" where
  "find_agentId k as = filter (\<lambda>a. Some (a_agentId a) = k) as"

text \<open>
  \<open>.populate('complaintId')\<close> replaces the reference of each assignment by the
  referenced complaint, or by \<open>null\<close> when no such complaint is stored.
\<close>

definition populate_complaintId :: "complaint list \<Rightarrow> assigned list \<Rightarrow> (assigned \<times> complaint option) list" where
  "populate_complaintId cs as = map (\<lambda>a. (a, findById (Some (a_complaintId a)) cs)) as"

text \<open>The filter \<open>a => a.complaintId && a.complaintId.status !== 'Resolved'\<close>.\<close>

fun is_active :: "assigned \<times> complaint option \<Rightarrow> bool" where
  "is_active (a, None) = False"
| "is_active (a, Some c) = (c_status c \<noteq> ''Resolved'')"

definition activeAgentCount :: "oid option \<Rightarrow> server \<Rightarrow> nat" where
  "activeAgentCount agentId s =
     length (filter is_active
       (populate_complaintId (complaints s) (find_agentId agentId (assignments s))))"

section \<open>Saving an assignment\<close>

record assign_body =
  b_complaintId :: "oid option"
  b_agentId :: "oid option"
  b_agentName :: "string option"

text \<open>A new ObjectId differs from every \<open>_id\<close> of the collection.\<close>

definition fresh_id :: "oid list \<Rightarrow> oid" where
  "fresh_id ids = Suc (fold max ids 0)"

text \<open>
  \<open>new Assigned({ complaintId, agentId, agentName })\<close> followed by validation: the three
  fields are \<open>required\<close> (a required string is also not empty); \<open>status\<close> and
  \<open>assignedAt\<close> take their defaults.
\<close>

fun validate_Assigned :: "oid \<Rightarrow> nat \<Rightarrow> assign_body \<Rightarrow> assigned option" where
  "validate_Assigned nid now b =
     (case (b_complaintId b, b_agentId b, b_agentName b) of
        (Some c, Some g, Some n) \<Rightarrow>
          (if n = [] then None
           else Some \<lparr>a_id = nid, a_agentId = g, a_complaintId = c, a_agentName = n,
                      a_status = ''Assigned'', a_assignedAt = now\<rparr>)
      | _ \<Rightarrow> None)"

text \<open>
  \<open>newAssignment.save()\<close>: validation first, then the insert, which the unique index on
  \<open>complaintId\<close> rejects with the duplicate-key error.
\<close>

definition save_Assigned :: "nat \<Rightarrow> assign_body \<Rightarrow> assigned list \<Rightarrow> store_error + (assigned \<times> assigned list)" where
  "save_Assigned now b as =
     (case validate_Assigned (fresh_id (map a_id as)) now b of
        None \<Rightarrow> Inl ValidationError
      | Some a \<Rightarrow>
          (if list_ex (\<lambda>x. a_complaintId x = a_complaintId a) as then Inl DuplicateKey
           else Inr (a, as @ [a])))"

section \<open>POST /api/assigned\<close>

definition already_assigned :: string where
  "already_assigned = ''Complaint is already assigned to an agent''"

definition limit_reached :: string where
  "limit_reached = ''Agent has reached maximum limit of 3 active assignments''"

text \<open>
  The handler from \<open>new Assigned\<close> on (the write, the status update, the re-read, the
  broadcast, the response), with its \<open>catch\<close>.
\<close>

definition persist_assignment :: "nat \<Rightarrow> assign_body \<Rightarrow> server \<Rightarrow> assigned reply \<times> server" where
  "persist_assignment now b s =
     (case save_Assigned now b (assignments s) of
        Inl e \<Rightarrow>
          (if err_code e = Some 11000 then (Rejected 400 (Msg already_assigned), s)
           else (Rejected 500 (Thrown e), s))
      | Inr (savedAssignment, as') \<Rightarrow>
          (let s1 = s\<lparr>assignments := as'\<rparr>;
               s2 = s1\<lparr>complaints :=
                      findByIdAndUpdate_status (b_complaintId b) ''Assigned'' (complaints s1)\<rparr>;
               updatedComplaint = findById (b_complaintId b) (complaints s2);
               s3 = s2\<lparr>emitted := emitted s2 @ [(''complaintUpdated'', PComplaint updatedComplaint)]\<rparr>
           in (Reply 201 savedAssignment, s3)))"

text \<open>
  The two reads and their early returns run on the state \<open>s\<close>; \<open>other\<close> is what other
  requests do to the store between the reads and the write (the handler awaits between
  them). The handler running alone is \<open>create_assignment\<close>.
\<close>

definition create_assignment_interleaved ::
  "(server \<Rightarrow> server) \<Rightarrow> nat \<Rightarrow> assign_body \<Rightarrow> server \<Rightarrow> assigned reply \<times> server" where
  "create_assignment_interleaved other now b s =
     (case findOne_complaintId (b_complaintId b) (assignments s) of
        Some existingAssignment \<Rightarrow> (Rejected 400 (Msg already_assigned), s)
      | None \<Rightarrow>
          (if activeAgentCount (b_agentId b) s \<ge> 3 then (Rejected 400 (Msg limit_reached), s)
           else persist_assignment now b (other s)))"

definition create_assignment :: "nat \<Rightarrow> assign_body \<Rightarrow> server \<Rightarrow> assigned reply \<times> server" where
  "create_assignment now b s = create_assignment_interleaved (\<lambda>x. x) now b s"

section \<open>PUT /api/complaints/:id\<close>

text \<open>
  The request body of the generic update: each schema field that it sets. The update
  runs no validator, so any value of the right type goes in, the status included.
\<close>

record complaint_update =
  cu_userId :: "oid option"
  cu_name :: "string option"
  cu_address :: "string option"
  cu_city :: "string option"
  cu_state :: "string option"
  cu_pincode :: "string option"
  cu_comment :: "string option"
  cu_attachments :: "attachment list option"
  cu_status :: "string option"
  cu_createdAt :: "nat option"

definition apply_update :: "complaint_update \<Rightarrow> complaint \<Rightarrow> complaint" where
  "apply_update u c =
     \<lparr>c_id = c_id c,
      c_userId = (case cu_userId u of None \<Rightarrow> c_userId c | Some v \<Rightarrow> v),
      c_name = (case cu_name u of None \<Rightarrow> c_name c | Some v \<Rightarrow> v),
      c_address = (case cu_address u of None \<Rightarrow> c_address c | Some v \<Rightarrow> v),
      c_city = (case cu_city u of None \<Rightarrow> c_city c | Some v \<Rightarrow> v),
      c_state = (case cu_state u of None \<Rightarrow> c_state c | Some v \<Rightarrow> v),
      c_pincode = (case cu_pincode u of None \<Rightarrow> c_pincode c | Some v \<Rightarrow> v),
      c_comment = (case cu_comment u of None \<Rightarrow> c_comment c | Some v \<Rightarrow> v),
      c_attachments = (case cu_attachments u of None \<Rightarrow> c_attachments c | Some v \<Rightarrow> v),
      c_status = (case cu_status u of None \<Rightarrow> c_status c | Some v \<Rightarrow> v),
      c_createdAt = (case cu_createdAt u of None \<Rightarrow> c_createdAt c | Some v \<Rightarrow> v)\<rparr>"

text \<open>\<open>Complaint.findByIdAndUpdate(id, req.body, { new: true })\<close> on the collection.\<close>

fun findByIdAndUpdate :: "oid \<Rightarrow> complaint_update \<Rightarrow> complaint list \<Rightarrow> complaint list" where
  "findByIdAndUpdate i u [] = []"
| "findByIdAndUpdate i u (c # cs) =
     (if c_id c = i then apply_update u c # cs else c # findByIdAndUpdate i u cs)"

text \<open>The route has no \<open>auth\<close>.\<close>

definition update_complaint :: "oid \<Rightarrow> complaint_update \<Rightarrow> server \<Rightarrow> complaint reply \<times> server" where
  "update_complaint i body s =
     (case findById (Some i) (findByIdAndUpdate i body (complaints s)) of
        None \<Rightarrow> (Rejected 404 (Msg ''Complaint not found''), s)
      | Some updatedComplaint \<Rightarrow>
          (Reply 200 updatedComplaint,
           s\<lparr>complaints := findByIdAndUpdate i body (complaints s),
             emitted := emitted s @ [(''complaintUpdated'', PComplaint (Some updatedComplaint))]\<rparr>))"

section \<open>DELETE /api/complaints/:id and GET /api/auth/agents\<close>

text \<open>\<open>Complaint.findByIdAndDelete(id)\<close> removes the one document with that id.\<close>

fun findByIdAndDelete :: "oid \<Rightarrow> complaint list \<Rightarrow> complaint list" where
  "findByIdAndDelete i [] = []"
| "findByIdAndDelete i (c # cs) = (if c_id c = i then cs else c # findByIdAndDelete i cs)"

text \<open>Only the complaint goes: assignments, messages and feedback stay as they are.\<close>

definition delete_complaint :: "oid \<Rightarrow> server \<Rightarrow> string reply \<times> server" where
  "delete_complaint i s =
     (case findById (Some i) (complaints s) of
        None \<Rightarrow> (Rejected 404 (Msg ''Complaint not found''), s)
      | Some deletedComplaint \<Rightarrow>
          (Reply 200 ''Complaint deleted successfully'',
           s\<lparr>complaints := findByIdAndDelete i (complaints s),
             emitted := emitted s @ [(''complaintDeleted'', PId i)]\<rparr>))"

text \<open>An agent as the listing returns it: the user without the password, and the count.\<close>

record agent_view =
  av_id :: oid
  av_name :: string
  av_email :: string
  av_phone :: string
  av_userType :: string
  av_createdAt :: nat
  av_activeAssignments :: nat

definition agent_with_count :: "server \<Rightarrow> user \<Rightarrow> agent_view" where
  "agent_with_count s agent =
     \<lparr>av_id = u_id agent, av_name = u_name agent, av_email = u_email agent,
      av_phone = u_phone agent, av_userType = u_userType agent,
      av_createdAt = u_createdAt agent,
      av_activeAssignments = activeAgentCount (Some (u_id agent)) s\<rparr>"

definition get_agents :: "server \<Rightarrow> agent_view list reply \<times> server" where
  "get_agents s =
     (Reply 200 (map (agent_with_count s) (filter (\<lambda>u. u_userType u = ''Agent'') (users s))), s)"

section \<open>Tokens and the \<open>auth\<close> middleware\<close>

text \<open>
  A token is modelled symbolically: the secret it was signed with and its payload, an
  object given as the list of its fields. \<open>jwt.sign\<close> adds the issue and expiry times (in
  seconds) to the payload. \<open>jwt.verify\<close> returns the payload when the secret matches,
  a \<open>nbf\<close> field, if present, is a number not in the future, and an \<open>exp\<close> field, if
  present, is a number in the future.
\<close>

datatype jval = JId oid | JStr string | JNum nat

type_synonym claims = "(string \<times> jval) list"

datatype jwt = Jwt string claims

definition jwt_sign :: "claims \<Rightarrow> string \<Rightarrow> nat \<Rightarrow> nat \<Rightarrow> jwt" where
  "jwt_sign payload secret expiresIn now =
     Jwt secret (payload @ [(''iat'', JNum (now div 1000)),
                            (''exp'', JNum (now div 1000 + expiresIn))])"

fun nbf_ok :: "jval option \<Rightarrow> nat \<Rightarrow> bool" where
  "nbf_ok None clockTimestamp = True"
| "nbf_ok (Some (JNum n)) clockTimestamp = (n \<le> clockTimestamp)"
| "nbf_ok (Some v) clockTimestamp = False"

fun exp_ok :: "jval option \<Rightarrow> nat \<Rightarrow> bool" where
  "exp_ok None clockTimestamp = True"
| "exp_ok (Some (JNum e)) clockTimestamp = (clockTimestamp < e)"
| "exp_ok (Some v) clockTimestamp = False"

fun jwt_verify :: "jwt \<Rightarrow> string \<Rightarrow> nat \<Rightarrow> claims option" where
  "jwt_verify (Jwt k payload) secret now =
     (if k = secret then
        (if nbf_ok (map_of payload ''nbf'') (now div 1000) then
           (if exp_ok (map_of payload ''exp'') (now div 1000) then Some payload else None)
         else None)
      else None)"

text \<open>
  The Authorization header, with the prefix \<open>Bearer\<close> already stripped: a token, or
  any other string.
\<close>

datatype header = Token jwt | Junk string

fun auth :: "nat \<Rightarrow> header option \<Rightarrow> (nat \<times> string) + claims" where
  "auth now None = Inl (401, ''Access denied. No token provided.'')"
| "auth now (Some (Junk t)) =
     (if t = [] then Inl (401, ''Access denied. No token provided.'')
      else Inl (400, ''Invalid token.''))"
| "auth now (Some (Token t)) =
     (case jwt_verify t ''SECRET_KEY'' now of
        None \<Rightarrow> Inl (400, ''Invalid token.'')
      | Some decoded \<Rightarrow> Inr decoded)"

text \<open>A route \<open>app.verb(path, auth, handler)\<close>; the handler reads \<open>req.user\<close>.\<close>

definition with_auth ::
  "nat \<Rightarrow> header option \<Rightarrow> server \<Rightarrow> (claims \<Rightarrow> 'a reply \<times> server) \<Rightarrow> 'a reply \<times> server" where
  "with_auth now h s handler =
     (case auth now h of
        Inl (code, m) \<Rightarrow> (Rejected code (Msg m), s)
      | Inr decoded \<Rightarrow> handler decoded)"

section \<open>POST /api/auth/register and POST /api/auth/login\<close>

record register_body =
  rb_name :: "string option"
  rb_email :: "string option"
  rb_password :: "string option"
  rb_phone :: "string option"
  rb_userType :: "string option"

record login_body =
  lb_email :: "string option"
  lb_password :: "string option"

text \<open>The body of both responses: the token and \<open>{ id, name, userType }\<close>.\<close>

record auth_reply =
  ar_token :: jwt
  ar_id :: oid
  ar_name :: string
  ar_userType :: string

text \<open>
  \<open>new User(...)\<close> and validation: \<open>name\<close>, \<open>email\<close>, \<open>password\<close>, \<open>phone\<close> are
  required; \<open>userType\<close> defaults to \<open>Customer\<close> and must belong to the enum.
\<close>

fun validate_User :: "oid \<Rightarrow> nat \<Rightarrow> string \<Rightarrow> register_body \<Rightarrow> user option" where
  "validate_User nid now hashedPassword b =
     (case (rb_name b, rb_email b, rb_phone b) of
        (Some n, Some e, Some p) \<Rightarrow>
          (let t = (case rb_userType b of None \<Rightarrow> ''Customer'' | Some v \<Rightarrow> v) in
           if n = [] \<or> e = [] \<or> p = [] \<or> hashedPassword = [] then None
           else if t \<in> set [''Customer'', ''Agent'', ''Admin''] then
             Some \<lparr>u_id = nid, u_name = n, u_email = e, u_password = hashedPassword,
                   u_phone = p, u_userType = t, u_createdAt = now\<rparr>
           else None)
      | _ \<Rightarrow> None)"

text \<open>\<open>newUser.save()\<close>, with the unique index on \<open>email\<close>.\<close>

definition save_User :: "nat \<Rightarrow> string \<Rightarrow> register_body \<Rightarrow> user list \<Rightarrow> store_error + (user \<times> user list)" where
  "save_User now hashedPassword b us =
     (case validate_User (fresh_id (map u_id us)) now hashedPassword b of
        None \<Rightarrow> Inl ValidationError
      | Some u \<Rightarrow>
          (if list_ex (\<lambda>x. u_email x = u_email u) us then Inl DuplicateKey
           else Inr (u, us @ [u])))"

definition issue_token :: "user \<Rightarrow> nat \<Rightarrow> jwt" where
  "issue_token u now =
     jwt_sign [(''id'', JId (u_id u)), (''userType'', JStr (u_userType u))] ''SECRET_KEY'' 3600 now"

text \<open>
  \<open>hash\<close> stands for \<open>bcrypt.hash(_, 10)\<close> and \<open>compare\<close> for \<open>bcrypt.compare\<close>; both
  throw when the password is undefined.
\<close>

definition register ::
  "(string \<Rightarrow> string) \<Rightarrow> nat \<Rightarrow> register_body \<Rightarrow> server \<Rightarrow> auth_reply reply \<times> server" where
  "register hash now b s =
     (case rb_password b of
        None \<Rightarrow> (Rejected 500 (Thrown BcryptError), s)
      | Some password \<Rightarrow>
          (case save_User now (hash password) b (users s) of
             Inl e \<Rightarrow> (Rejected 500 (Thrown e), s)
           | Inr (newUser, us') \<Rightarrow>
               (Reply 201 \<lparr>ar_token = issue_token newUser now, ar_id = u_id newUser,
                           ar_name = u_name newUser, ar_userType = u_userType newUser\<rparr>,
                s\<lparr>users := us'\<rparr>)))"

definition login ::
  "(string \<Rightarrow> string \<Rightarrow> bool) \<Rightarrow> nat \<Rightarrow> login_body \<Rightarrow> server \<Rightarrow> auth_reply reply \<times> server" where
  "login compare now b s =
     (case find (\<lambda>u. Some (u_email u) = lb_email b) (users s) of
        None \<Rightarrow> (Rejected 404 (Msg ''User not found''), s)
      | Some user \<Rightarrow>
          (case lb_password b of
             None \<Rightarrow> (Rejected 500 (Thrown BcryptError), s)
           | Some password \<Rightarrow>
               (if compare password (u_password user) then
                  (Reply 200 \<lparr>ar_token = issue_token user now, ar_id = u_id user,
                              ar_name = u_name user, ar_userType = u_userType user\<rparr>, s)
                else (Rejected 400 (Msg ''Invalid credentials''), s))))"

section \<open>PUT /api/messages/read/:complaintId and GET /api/messages/unread/counts\<close>

text \<open>
  \<open>req.user.name\<close>: the field \<open>name\<close> of the decoded payload, \<open>undefined\<close> (\<open>None\<close>)
  when the payload has no such field.
\<close>

definition req_user_name :: "claims \<Rightarrow> jval option" where
  "req_user_name decoded = map_of decoded ''name''"

text \<open>
  The filter \<open>{ name: { $ne: userName }, read: false }\<close> as the aggregation applies it:
  the operand is compared as it is. The sender of a stored message is a string, so it
  differs from an undefined \<open>userName\<close> and from one that is not a string.
\<close>

definition ne_name_unread :: "jval option \<Rightarrow> message \<Rightarrow> bool" where
  "ne_name_unread userName m = (Some (JStr (m_name m)) \<noteq> userName \<and> m_read m = False)"

text \<open>
  \<open>updateMany\<close> casts the operand of \<open>$ne\<close> to the schema type of \<open>name\<close>, String,
  first: a string is itself, a number or an id is its text (\<open>toString\<close>), and an
  undefined operand stays undefined.
\<close>

fun decimal :: "nat \<Rightarrow> string" where
  "decimal n =
     (if n < 10 then [char_of (48 + n)] else decimal (n div 10) @ [char_of (48 + n mod 10)])"

declare decimal.simps [simp del]

fun castString :: "jval \<Rightarrow> string" where
  "castString (JStr v) = v"
| "castString (JNum n) = decimal n"
| "castString (JId i) = decimal i"

definition ne_cast_name_unread :: "jval option \<Rightarrow> message \<Rightarrow> bool" where
  "ne_cast_name_unread userName m =
     (Some (m_name m) \<noteq> map_option castString userName \<and> m_read m = False)"

text \<open>\<open>Message.updateMany({ complaintId, name: { $ne: userName }, read: false }, { $set: { read: true } })\<close>.\<close>

definition updateMany_read :: "oid \<Rightarrow> jval option \<Rightarrow> message list \<Rightarrow> message list" where
  "updateMany_read complaintId userName ms =
     map (\<lambda>m. if m_complaintId m = complaintId \<and> ne_cast_name_unread userName m
               then m\<lparr>m_read := True\<rparr> else m) ms"

definition mark_read :: "oid \<Rightarrow> claims \<Rightarrow> server \<Rightarrow> bool reply \<times> server" where
  "mark_read complaintId decoded s =
     (let userName = req_user_name decoded
      in (Reply 200 True, s\<lparr>messages := updateMany_read complaintId userName (messages s)\<rparr>))"

text \<open>
  The aggregation: \<open>$match\<close>, then \<open>$group\<close> by \<open>complaintId\<close> with \<open>{ $sum: 1 }\<close>, one
  result per complaint id that occurs among the matched messages.
\<close>

definition group_count :: "message list \<Rightarrow> (oid \<times> nat) list" where
  "group_count ms =
     map (\<lambda>k. (k, length (filter (\<lambda>m. m_complaintId m = k) ms))) (remdups (map m_complaintId ms))"

definition aggregate_unread :: "jval option \<Rightarrow> message list \<Rightarrow> (oid \<times> nat) list" where
  "aggregate_unread userName ms = group_count (filter (ne_name_unread userName) ms)"

text \<open>\<open>counts[item._id] = item.count\<close> for each result, starting from the empty object.\<close>

definition unread_counts :: "claims \<Rightarrow> server \<Rightarrow> (oid \<rightharpoonup> nat) reply \<times> server" where
  "unread_counts decoded s =
     (let userName = req_user_name decoded;
          unreadMessages = aggregate_unread userName (messages s);
          counts = fold (\<lambda>item acc. acc(fst item \<mapsto> snd item)) unreadMessages Map.empty
      in (Reply 200 counts, s))"

section \<open>POST /api/feedback\<close>

record feedback_body =
  fb_complaintId :: "oid option"
  fb_rating :: "rat option"
  fb_comment :: "string option"

text \<open>
  \<open>new Feedback(...)\<close> and validation: \<open>userId\<close> (taken from \<open>req.user.id\<close>),
  \<open>complaintId\<close> and \<open>rating\<close> are required, and \<open>rating\<close> has \<open>min: 1, max: 5\<close>.
\<close>

fun validate_Feedback ::
  "oid \<Rightarrow> nat \<Rightarrow> jval option \<Rightarrow> oid option \<Rightarrow> feedback_body \<Rightarrow> feedback option" where
  "validate_Feedback nid now userId agentId b =
     (case (userId, fb_complaintId b, fb_rating b) of
        (Some (JId u), Some c, Some r) \<Rightarrow>
          (if r < 1 then None
           else if 5 < r then None
           else Some \<lparr>f_id = nid, f_userId = u, f_complaintId = c, f_agentId = agentId,
                      f_rating = r, f_comment = fb_comment b, f_createdAt = now\<rparr>)
      | _ \<Rightarrow> None)"

definition create_feedback :: "nat \<Rightarrow> feedback_body \<Rightarrow> claims \<Rightarrow> server \<Rightarrow> feedback reply \<times> server" where
  "create_feedback now b decoded s =
     (let userId = map_of decoded ''id'';
          assignment = findOne_complaintId (fb_complaintId b) (assignments s);
          agentId = (case assignment of None \<Rightarrow> None | Some a \<Rightarrow> Some (a_agentId a))
      in case validate_Feedback (fresh_id (map f_id (feedbacks s))) now userId agentId b of
           None \<Rightarrow> (Rejected 500 (Thrown ValidationError), s)
         | Some savedFeedback \<Rightarrow>
             (Reply 201 savedFeedback, s\<lparr>feedbacks := feedbacks s @ [savedFeedback]\<rparr>))"

section \<open>The routes behind \<open>auth\<close>\<close>

definition api_post_assigned :: "nat \<Rightarrow> header option \<Rightarrow> assign_body \<Rightarrow> server \<Rightarrow> assigned reply \<times> server" where
  "api_post_assigned now h b s = with_auth now h s (\<lambda>decoded. create_assignment now b s)"

definition api_delete_complaint :: "nat \<Rightarrow> header option \<Rightarrow> oid \<Rightarrow> server \<Rightarrow> string reply \<times> server" where
  "api_delete_complaint now h i s = with_auth now h s (\<lambda>decoded. delete_complaint i s)"

definition api_mark_read :: "nat \<Rightarrow> header option \<Rightarrow> oid \<Rightarrow> server \<Rightarrow> bool reply \<times> server" where
  "api_mark_read now h complaintId s = with_auth now h s (\<lambda>decoded. mark_read complaintId decoded s)"

definition api_unread_counts :: "nat \<Rightarrow> header option \<Rightarrow> server \<Rightarrow> (oid \<rightharpoonup> nat) reply \<times> server" where
  "api_unread_counts now h s = with_auth now h s (\<lambda>decoded. unread_counts decoded s)"

definition api_post_feedback :: "nat \<Rightarrow> header option \<Rightarrow> feedback_body \<Rightarrow> server \<Rightarrow> feedback reply \<times> server" where
  "api_post_feedback now h b s = with_auth now h s (\<lambda>decoded. create_feedback now b decoded s)"

section \<open>Example data\<close>

text \<open>Small documents and a store on which the handlers are run below.\<close>

definition mk_complaint :: "oid \<Rightarrow> string \<Rightarrow> complaint" where
  "mk_complaint i st =
     \<lparr>c_id = i, c_userId = 100, c_name = ''Asha'', c_address = ''12 Lake Road'',
      c_city = ''Vizag'', c_state = ''AP'', c_pincode = ''530001'', c_comment = ''No water'',
      c_attachments = [], c_status = st, c_createdAt = 0\<rparr>"

definition mk_assigned :: "oid \<Rightarrow> oid \<Rightarrow> oid \<Rightarrow> assigned" where
  "mk_assigned i g c =
     \<lparr>a_id = i, a_agentId = g, a_complaintId = c, a_agentName = ''Ravi'',
      a_status = ''Assigned'', a_assignedAt = 0\<rparr>"

definition mk_message :: "oid \<Rightarrow> oid \<Rightarrow> string \<Rightarrow> bool \<Rightarrow> message" where
  "mk_message i c n r =
     \<lparr>m_id = i, m_complaintId = c, m_name = n, m_message = ''hello'', m_attachments = [],
      m_read = r, m_sentAt = 0\<rparr>"

definition mk_body :: "oid \<Rightarrow> oid \<Rightarrow> string \<Rightarrow> assign_body" where
  "mk_body c g n = \<lparr>b_complaintId = Some c, b_agentId = Some g, b_agentName = Some n\<rparr>"

definition empty_server :: server where
  "empty_server =
     \<lparr>users = [], complaints = [], assignments = [], messages = [], feedbacks = [], emitted = []\<rparr>"

definition mk_user :: "oid \<Rightarrow> string \<Rightarrow> string \<Rightarrow> string \<Rightarrow> user" where
  "mk_user i n e t =
     \<lparr>u_id = i, u_name = n, u_email = e, u_password = ''#secret'', u_phone = ''9000000000'',
      u_userType = t, u_createdAt = 0\<rparr>"

text \<open>
  Two agents and a customer; four complaints, of which agent 10 holds the first three.
\<close>

definition busy_server :: server where
  "busy_server =
     empty_server
       \<lparr>users := [mk_user 10 ''Ravi'' ''ravi@example.org'' ''Agent'',
                  mk_user 11 ''Mina'' ''mina@example.org'' ''Agent'',
                  mk_user 100 ''Asha'' ''asha@example.org'' ''Customer''],
        complaints := [mk_complaint 1 ''Assigned'', mk_complaint 2 ''Assigned'',
                       mk_complaint 3 ''Assigned'', mk_complaint 4 ''Pending''],
        assignments := [mk_assigned 1 10 1, mk_assigned 2 10 2, mk_assigned 3 10 3]\<rparr>"

text \<open>The same store after the first three complaints were deleted.\<close>

definition orphan_server :: server where
  "orphan_server =
     snd (delete_complaint 3 (snd (delete_complaint 2 (snd (delete_complaint 1 busy_server)))))"

text \<open>A body of the generic update that sets the status and nothing else.\<close>

definition set_status :: "string \<Rightarrow> complaint_update" where
  "set_status st =
     \<lparr>cu_userId = None, cu_name = None, cu_address = None, cu_city = None, cu_state = None,
      cu_pincode = None, cu_comment = None, cu_attachments = None, cu_status = Some st,
      cu_createdAt = None\<rparr>"

text \<open>
  A run of requests, one after the other, on the store with a fifth complaint: complaint 1
  is set to Resolved, agent 10 is given complaint 4, and complaint 1 is set back to
  Pending.
\<close>

definition five_server :: server where
  "five_server = busy_server\<lparr>complaints := complaints busy_server @ [mk_complaint 5 ''Pending'']\<rparr>"

definition reopened_server :: server where
  "reopened_server =
     snd (update_complaint 1 (set_status ''Pending'')
       (snd (create_assignment 0 (mk_body 4 10 ''Ravi'')
         (snd (update_complaint 1 (set_status ''Resolved'') five_server)))))"

text \<open>
  The same store with four messages on complaints 1 and 2, sent by the customer Asha and
  the agent Ravi; one of Ravi's is already read.
\<close>

definition chat_server :: server where
  "chat_server =
     busy_server
       \<lparr>messages := [mk_message 1 1 ''Asha'' False, mk_message 2 1 ''Ravi'' False,
                     mk_message 3 2 ''Asha'' False, mk_message 4 2 ''Ravi'' True]\<rparr>"

definition asha :: user where
  "asha = mk_user 100 ''Asha'' ''asha@example.org'' ''Customer''"

text \<open>A stand-in for \<open>bcrypt\<close> on the example data.\<close>

definition toy_hash :: "string \<Rightarrow> string" where
  "toy_hash p = ''#'' @ p"

definition toy_compare :: "string \<Rightarrow> string \<Rightarrow> bool" where
  "toy_compare p h = (h = toy_hash p)"

section \<open>Helper lemmas\<close>

lemma findOne_complaintId_None:
  "(findOne_complaintId k as = None) = (\<not> list_ex (\<lambda>a. Some (a_complaintId a) = k) as)"
  by (auto simp: findOne_complaintId_def find_None_iff list_ex_iff)

lemma save_Assigned_appends:
  "save_Assigned now b as = Inr (a, as') \<Longrightarrow>
     as' = as @ [a] \<and> b_complaintId b = Some (a_complaintId a) \<and>
     b_agentId b = Some (a_agentId a) \<and> b_agentName b = Some (a_agentName a) \<and>
     a_agentName a \<noteq> [] \<and> a_status a = ''Assigned''"
  by (auto simp: save_Assigned_def split: option.splits if_splits)

lemma findById_update:
  "findById j (findByIdAndUpdate_status i v cs) =
     (if j = i then map_option (\<lambda>c. c\<lparr>c_status := v\<rparr>) (findById j cs) else findById j cs)"
  by (induction cs) (auto simp: findById_def)

lemma create_assignment_unfold:
  "create_assignment now b s =
     (case findOne_complaintId (b_complaintId b) (assignments s) of
        Some e \<Rightarrow> (Rejected 400 (Msg already_assigned), s)
      | None \<Rightarrow>
          (if activeAgentCount (b_agentId b) s \<ge> 3 then (Rejected 400 (Msg limit_reached), s)
           else persist_assignment now b s))"
  by (simp add: create_assignment_def create_assignment_interleaved_def)

lemmas ex_defs = busy_server_def empty_server_def mk_complaint_def mk_assigned_def mk_body_def
  mk_user_def mk_message_def chat_server_def asha_def toy_hash_def toy_compare_def
  five_server_def set_status_def
lemmas q_defs = findOne_complaintId_def find_agentId_def populate_complaintId_def findById_def
  activeAgentCount_def

lemma activeAgentCount_filter:
  "activeAgentCount g s =
     length (filter (\<lambda>a. Some (a_agentId a) = g \<and>
                          is_active (a, findById (Some (a_complaintId a)) (complaints s)))
               (assignments s))"
  by (simp add: activeAgentCount_def populate_complaintId_def find_agentId_def filter_map
      comp_def conj_commute)

lemma persist_assignment_Reply:
  assumes "persist_assignment now b s = (Reply code a, s')"
  shows "code = 201"
    and "b_complaintId b = Some (a_complaintId a)"
    and "b_agentId b = Some (a_agentId a)"
    and "\<not> list_ex (\<lambda>x. a_complaintId x = a_complaintId a) (assignments s)"
    and "s' = s\<lparr>assignments := assignments s @ [a],
               complaints := findByIdAndUpdate_status (Some (a_complaintId a)) ''Assigned'' (complaints s),
               emitted := emitted s @ [(''complaintUpdated'',
                 PComplaint (findById (Some (a_complaintId a))
                   (findByIdAndUpdate_status (Some (a_complaintId a)) ''Assigned'' (complaints s))))]\<rparr>"
  using assms
  by (auto simp: persist_assignment_def save_Assigned_def Let_def
      split: sum.splits option.splits if_splits)

lemma create_assignment_Reply:
  assumes "create_assignment now b s = (Reply code a, s')"
  shows "findOne_complaintId (b_complaintId b) (assignments s) = None"
    and "activeAgentCount (b_agentId b) s < 3"
    and "persist_assignment now b s = (Reply code a, s')"
  using assms by (auto simp: create_assignment_unfold split: option.splits if_splits)

lemma findByIdAndUpdate_status_absent:
  "findById i cs = None \<Longrightarrow> findByIdAndUpdate_status i v cs = cs"
  by (induction cs) (auto simp: findById_def split: if_splits)

lemma findById_absent:
  "i \<notin> c_id ` set cs \<Longrightarrow> findById (Some i) cs = None"
  by (auto simp: findById_def find_None_iff)

lemma findById_delete:
  "distinct (map c_id cs) \<Longrightarrow>
     findById (Some j) (findByIdAndDelete i cs) = (if j = i then None else findById (Some j) cs)"
proof (induction cs)
  case Nil
  then show ?case by (simp add: findById_def)
next
  case (Cons c cs)
  show ?case
  proof (cases "c_id c = i")
    case True
    with Cons.prems have "i \<notin> c_id ` set cs" by auto
    then have "findById (Some i) cs = None" by (rule findById_absent)
    with True show ?thesis by (auto simp: findById_def)
  next
    case False
    with Cons show ?thesis by (auto simp: findById_def)
  qed
qed

lemma is_active_iff:
  "is_active (a, r) = (\<exists>c. r = Some c \<and> c_status c \<noteq> ''Resolved'')"
  by (cases r) auto

lemma updateMany_read_undefined:
  "updateMany_read c None ms = map (\<lambda>m. if m_complaintId m = c then m\<lparr>m_read := True\<rparr> else m) ms"
  by (induction ms) (auto simp: updateMany_read_def ne_cast_name_unread_def)

lemma updateMany_read_idem:
  "updateMany_read c u (updateMany_read c u ms) = updateMany_read c u ms"
  by (induction ms) (auto simp: updateMany_read_def ne_cast_name_unread_def)

text \<open>
  What the filter of mark-read does when \<open>req.user.name\<close> is the string \<open>N\<close>: message by
  message, those on the complaint sent under another name end up read, all others are
  untouched.
\<close>

lemma updateMany_read_named:
  "length (updateMany_read c (Some (JStr N)) ms) = length ms \<and>
   (\<forall>k < length ms.
      updateMany_read c (Some (JStr N)) ms ! k =
        (if m_complaintId (ms ! k) = c \<and> m_name (ms ! k) \<noteq> N
         then (ms ! k)\<lparr>m_read := True\<rparr> else ms ! k))"
  by (auto simp: updateMany_read_def ne_cast_name_unread_def)

lemma fold_upd_keys:
  "fold (\<lambda>item acc. acc(fst item \<mapsto> snd item)) (map (\<lambda>k. (k, g k)) ks) m =
     (\<lambda>k. if k \<in> set ks then Some (g k) else m k)"
  by (induction ks arbitrary: m) (auto simp: fun_eq_iff)

lemma unread_counts_value:
  "unread_counts decoded s =
     (Reply 200
        (\<lambda>C. let n = length (filter (\<lambda>m. m_complaintId m = C \<and>
                                          ne_name_unread (req_user_name decoded) m) (messages s))
              in if n = 0 then None else Some n),
      s)"
proof -
  let ?P = "ne_name_unread (req_user_name decoded)"
  have "(C \<in> m_complaintId ` set (filter ?P (messages s))) =
        (length (filter (\<lambda>m. m_complaintId m = C \<and> ?P m) (messages s)) \<noteq> 0)" for C
    by (auto simp: filter_empty_conv)
  then show ?thesis
    by (auto simp: unread_counts_def aggregate_unread_def group_count_def Let_def fold_upd_keys
        fun_eq_iff conj_commute)
qed

lemma issue_token_payload:
  "issue_token u now =
     Jwt ''SECRET_KEY'' [(''id'', JId (u_id u)), (''userType'', JStr (u_userType u)),
                         (''iat'', JNum (now div 1000)), (''exp'', JNum (now div 1000 + 3600))]"
  by (simp add: issue_token_def jwt_sign_def)

lemma auth_issue_token:
  "auth now' (Some (Token (issue_token u now))) = Inr decoded \<Longrightarrow>
     req_user_name decoded = None \<and> map_of decoded ''id'' = Some (JId (u_id u))"
  by (auto simp: issue_token_payload req_user_name_def split: if_splits)

lemma register_Reply:
  "register hash now b s = (Reply code r, s') \<Longrightarrow>
     \<exists>u. s' = s\<lparr>users := users s @ [u]\<rparr> \<and> rb_name b = Some (u_name u) \<and>
         r = \<lparr>ar_token = issue_token u now, ar_id = u_id u, ar_name = u_name u,
               ar_userType = u_userType u\<rparr>"
  by (auto simp: register_def save_User_def Let_def split: option.splits sum.splits if_splits)

lemma login_Reply:
  "login compare now b s = (Reply code r, s') \<Longrightarrow>
     \<exists>u \<in> set (users s). s' = s \<and> lb_email b = Some (u_email u) \<and>
         r = \<lparr>ar_token = issue_token u now, ar_id = u_id u, ar_name = u_name u,
               ar_userType = u_userType u\<rparr>"
proof -
  assume ok: "login compare now b s = (Reply code r, s')"
  then obtain u where u: "find (\<lambda>u. Some (u_email u) = lb_email b) (users s) = Some u"
    by (auto simp: login_def split: option.splits)
  then have "u \<in> set (users s)" and "lb_email b = Some (u_email u)"
    by (auto simp: find_Some_iff)
  with ok u show ?thesis
    by (auto simp: login_def split: option.splits if_splits)
qed

lemma with_auth_Inr:
  "auth now h = Inr decoded \<Longrightarrow> with_auth now h s handler = handler decoded"
  by (simp add: with_auth_def)

text \<open>A numeric \<open>userName\<close> is cast: the message named "5" is spared.\<close>

lemma updateMany_read_numeric_name:
  "updateMany_read 1 (Some (JNum 5)) [mk_message 1 1 ''5'' False, mk_message 2 1 ''Ravi'' False] =
     [mk_message 1 1 ''5'' False, mk_message 2 1 ''Ravi'' True]"
proof -
  have "decimal 5 = ''5''" by code_simp
  then show ?thesis
    by (simp add: updateMany_read_def ne_cast_name_unread_def mk_message_def)
qed

lemma reopened_server_value:
  "reopened_server =
     five_server
       \<lparr>complaints := [mk_complaint 1 ''Pending'', mk_complaint 2 ''Assigned'',
                       mk_complaint 3 ''Assigned'', mk_complaint 4 ''Assigned'',
                       mk_complaint 5 ''Pending''],
        assignments := [mk_assigned 1 10 1, mk_assigned 2 10 2, mk_assigned 3 10 3,
                        mk_assigned 4 10 4],
        emitted := [(''complaintUpdated'', PComplaint (Some (mk_complaint 1 ''Resolved''))),
                    (''complaintUpdated'', PComplaint (Some (mk_complaint 4 ''Assigned''))),
                    (''complaintUpdated'', PComplaint (Some (mk_complaint 1 ''Pending'')))]\<rparr>"
  by (simp add: reopened_server_def update_complaint_def apply_update_def
      create_assignment_unfold persist_assignment_def save_Assigned_def fresh_id_def Let_def
      ex_defs q_defs)

section \<open>Claims about create-assignment\<close>

text \<open>
  C1. The create-assignment operation checks in order. If some stored assignment
  references the given complaint id, it answers 400 with "Complaint is already assigned to
  an agent" and the store is unchanged, whatever the agent's load. Otherwise, if the
  agent's count of assignments whose complaint is not Resolved is at least 3, it answers
  400 with the capacity message and the store is unchanged. The assignments change only
  when both checks passed, and then by exactly one appended assignment, returned with
  status 201.
\<close>

theorem create_assignment_check_order:
  "((\<exists>a \<in> set (assignments s). Some (a_complaintId a) = b_complaintId b) \<longrightarrow>
      create_assignment now b s =
        (Rejected 400 (Msg ''Complaint is already assigned to an agent''), s)) \<and>
   (\<not> (\<exists>a \<in> set (assignments s). Some (a_complaintId a) = b_complaintId b) \<and>
      3 \<le> activeAgentCount (b_agentId b) s \<longrightarrow>
      create_assignment now b s =
        (Rejected 400 (Msg ''Agent has reached maximum limit of 3 active assignments''), s)) \<and>
   (assignments (snd (create_assignment now b s)) \<noteq> assignments s \<longrightarrow>
      \<not> (\<exists>a \<in> set (assignments s). Some (a_complaintId a) = b_complaintId b) \<and>
      activeAgentCount (b_agentId b) s < 3 \<and>
      (\<exists>a. create_assignment now b s = (Reply 201 a, snd (create_assignment now b s)) \<and>
           assignments (snd (create_assignment now b s)) = assignments s @ [a]))"
proof (intro conjI impI)
  assume "\<exists>a \<in> set (assignments s). Some (a_complaintId a) = b_complaintId b"
  then have "findOne_complaintId (b_complaintId b) (assignments s) \<noteq> None"
    by (auto simp: findOne_complaintId_None list_ex_iff)
  then show "create_assignment now b s =
        (Rejected 400 (Msg ''Complaint is already assigned to an agent''), s)"
    by (auto simp: create_assignment_unfold already_assigned_def)
next
  assume "\<not> (\<exists>a \<in> set (assignments s). Some (a_complaintId a) = b_complaintId b) \<and>
      3 \<le> activeAgentCount (b_agentId b) s"
  then have "findOne_complaintId (b_complaintId b) (assignments s) = None"
    and "3 \<le> activeAgentCount (b_agentId b) s"
    by (auto simp: findOne_complaintId_None list_ex_iff)
  then show "create_assignment now b s =
        (Rejected 400 (Msg ''Agent has reached maximum limit of 3 active assignments''), s)"
    by (simp add: create_assignment_unfold limit_reached_def)
next
  assume ch: "assignments (snd (create_assignment now b s)) \<noteq> assignments s"
  show "\<not> (\<exists>a \<in> set (assignments s). Some (a_complaintId a) = b_complaintId b)"
    using ch by (auto simp: create_assignment_unfold findOne_complaintId_None list_ex_iff
        split: option.splits)
  show "activeAgentCount (b_agentId b) s < 3"
    using ch by (auto simp: create_assignment_unfold split: option.splits if_splits)
  show "\<exists>a. create_assignment now b s = (Reply 201 a, snd (create_assignment now b s)) \<and>
           assignments (snd (create_assignment now b s)) = assignments s @ [a]"
    using ch by (auto simp: create_assignment_unfold persist_assignment_def Let_def
        split: option.splits if_splits sum.splits dest: save_Assigned_appends)
qed

theorem create_assignment_check_order_witness:
  "create_assignment 0 (mk_body 1 11 ''Mina'') busy_server =
     (Rejected 400 (Msg ''Complaint is already assigned to an agent''), busy_server) \<and>
   create_assignment 0 (mk_body 4 10 ''Ravi'') busy_server =
     (Rejected 400 (Msg ''Agent has reached maximum limit of 3 active assignments''), busy_server) \<and>
   assignments (snd (create_assignment 0 (mk_body 4 11 ''Mina'') busy_server)) \<noteq> assignments busy_server \<and>
   activeAgentCount (Some 11) busy_server < 3"
proof -
  have h1: "\<exists>a \<in> set (assignments busy_server). Some (a_complaintId a) = b_complaintId (mk_body 1 11 ''Mina'')"
    by (simp add: ex_defs)
  have h2: "\<not> (\<exists>a \<in> set (assignments busy_server). Some (a_complaintId a) = b_complaintId (mk_body 4 10 ''Ravi'')) \<and>
      3 \<le> activeAgentCount (b_agentId (mk_body 4 10 ''Ravi'')) busy_server"
    by (simp add: ex_defs q_defs)
  have h3: "assignments (snd (create_assignment 0 (mk_body 4 11 ''Mina'') busy_server)) \<noteq> assignments busy_server"
    by (simp add: ex_defs q_defs create_assignment_unfold persist_assignment_def save_Assigned_def
        fresh_id_def Let_def)
  note t = create_assignment_check_order
  from t [of busy_server "mk_body 1 11 ''Mina''" 0] h1
  have c1: "create_assignment 0 (mk_body 1 11 ''Mina'') busy_server =
     (Rejected 400 (Msg ''Complaint is already assigned to an agent''), busy_server)" by blast
  from t [of busy_server "mk_body 4 10 ''Ravi''" 0] h2
  have c2: "create_assignment 0 (mk_body 4 10 ''Ravi'') busy_server =
     (Rejected 400 (Msg ''Agent has reached maximum limit of 3 active assignments''), busy_server)" by blast
  from t [of busy_server "mk_body 4 11 ''Mina''" 0] h3
  have c3: "activeAgentCount (b_agentId (mk_body 4 11 ''Mina'')) busy_server < 3" by blast
  from c1 c2 h3 c3 show ?thesis by (simp add: mk_body_def)
qed

text \<open>
  C2. For every stored complaint C, a create-assignment call for C that succeeds answers
  201 with the created assignment, leaves C stored with status "Assigned" and all its
  other fields as before, and has emitted one \<open>complaintUpdated\<close> notification whose
  payload is the complaint as re-read after the update; the new assignment is the one
  appended to the store.
\<close>

theorem create_assignment_sets_status_and_notifies:
  assumes "findById (Some i) (complaints s) = Some c"
    and "b_complaintId b = Some i"
    and "create_assignment now b s = (Reply code a, s')"
  shows "code = 201 \<and>
         findById (Some i) (complaints s') = Some (c\<lparr>c_status := ''Assigned''\<rparr>) \<and>
         emitted s' = emitted s @
           [(''complaintUpdated'', PComplaint (findById (Some i) (complaints s')))] \<and>
         assignments s' = assignments s @ [a] \<and> a_complaintId a = i"
proof -
  note p = persist_assignment_Reply [OF create_assignment_Reply(3) [OF assms(3)]]
  from p(2) assms(2) have i: "a_complaintId a = i" by simp
  from assms(1) have r: "findById (Some i) (findByIdAndUpdate_status (Some i) ''Assigned'' (complaints s))
      = Some (c\<lparr>c_status := ''Assigned''\<rparr>)"
    by (simp add: findById_update)
  show ?thesis using p(1) p(5) i r by simp
qed

theorem create_assignment_sets_status_and_notifies_witness:
  "fst (create_assignment 0 (mk_body 4 11 ''Mina'') busy_server) =
     Reply 201 \<lparr>a_id = 4, a_agentId = 11, a_complaintId = 4, a_agentName = ''Mina'',
                 a_status = ''Assigned'', a_assignedAt = 0\<rparr> \<and>
   findById (Some 4) (complaints (snd (create_assignment 0 (mk_body 4 11 ''Mina'') busy_server))) =
     Some (mk_complaint 4 ''Assigned'') \<and>
   emitted (snd (create_assignment 0 (mk_body 4 11 ''Mina'') busy_server)) =
     [(''complaintUpdated'', PComplaint (Some (mk_complaint 4 ''Assigned'')))]"
proof -
  let ?b = "mk_body 4 11 ''Mina''"
  let ?a = "\<lparr>a_id = 4, a_agentId = 11, a_complaintId = 4, a_agentName = ''Mina'',
                 a_status = ''Assigned'', a_assignedAt = 0\<rparr>"
  have h1: "findById (Some 4) (complaints busy_server) = Some (mk_complaint 4 ''Pending'')"
    by (simp add: ex_defs q_defs)
  have h2: "b_complaintId ?b = Some 4" by (simp add: mk_body_def)
  have f: "fst (create_assignment 0 ?b busy_server) = Reply 201 ?a"
    by (simp add: ex_defs q_defs create_assignment_unfold persist_assignment_def save_Assigned_def
        fresh_id_def Let_def)
  then have h3: "create_assignment 0 ?b busy_server =
      (Reply 201 ?a, snd (create_assignment 0 ?b busy_server))"
    by (metis prod.collapse)
  from create_assignment_sets_status_and_notifies [OF h1 h2 h3] f
  show ?thesis by (simp add: mk_complaint_def ex_defs)
qed

text \<open>
  C3, as stated for every agent, fails without any concurrent writer. Complaint 1 of
  agent 10 is set to Resolved by the generic update, agent 10 is given complaint 4, and
  complaint 1 is set back to Pending: agent 10 now has four assignments whose complaint
  is not Resolved. The next call, for agent 11, succeeds, and right after it agent 10
  still has four.
\<close>

theorem create_assignment_keeps_agent_within_three_counterexample:
  "assignments reopened_server =
     [mk_assigned 1 10 1, mk_assigned 2 10 2, mk_assigned 3 10 3, mk_assigned 4 10 4] \<and>
   map c_status (complaints reopened_server) =
     [''Pending'', ''Assigned'', ''Assigned'', ''Assigned'', ''Pending''] \<and>
   fst (create_assignment 0 (mk_body 5 11 ''Mina'') reopened_server) =
     Reply 201 \<lparr>a_id = 5, a_agentId = 11, a_complaintId = 5, a_agentName = ''Mina'',
                 a_status = ''Assigned'', a_assignedAt = 0\<rparr> \<and>
   activeAgentCount (Some 10) (snd (create_assignment 0 (mk_body 5 11 ''Mina'') reopened_server)) = 4"
  by (simp add: reopened_server_value create_assignment_unfold persist_assignment_def
      save_Assigned_def fresh_id_def Let_def ex_defs q_defs)

text \<open>
  C3, amended. The handler running alone (no other writer between its reads and its
  write): after a successful create-assignment call, the agent A of that call has at
  most 3 assignments whose complaint is stored with a status other than "Resolved"; this
  number is the count \<open>activeAgentCount\<close> of the capacity check. The count of every other
  agent is what it was before the call, whatever it was.
\<close>

theorem create_assignment_keeps_agent_within_three:
  assumes "create_assignment now b s = (Reply code a, s')"
  shows "b_agentId b = Some (a_agentId a) \<and>
         length (filter (\<lambda>x. a_agentId x = a_agentId a \<and>
                     (\<exists>c. findById (Some (a_complaintId x)) (complaints s') = Some c \<and>
                          c_status c \<noteq> ''Resolved''))
                   (assignments s')) \<le> 3 \<and>
         activeAgentCount (Some (a_agentId a)) s' \<le> 3 \<and>
         (g \<noteq> Some (a_agentId a) \<longrightarrow> activeAgentCount g s' = activeAgentCount g s)"
proof -
  note c = create_assignment_Reply [OF assms]
  note p = persist_assignment_Reply [OF c(3)]
  let ?g = "Some (a_agentId a)"
  let ?cs' = "findByIdAndUpdate_status (Some (a_complaintId a)) ''Assigned'' (complaints s)"
  let ?P = "\<lambda>cs x. Some (a_agentId x) = ?g \<and> is_active (x, findById (Some (a_complaintId x)) cs)"
  have old: "filter (?P ?cs') (assignments s) = filter (?P (complaints s)) (assignments s)"
  proof (rule filter_cong [OF refl])
    fix x assume "x \<in> set (assignments s)"
    with p(4) have "a_complaintId x \<noteq> a_complaintId a" by (auto simp: list_ex_iff)
    then show "?P ?cs' x = ?P (complaints s) x" by (simp add: findById_update)
  qed
  have "activeAgentCount ?g s' = length (filter (?P ?cs') (assignments s @ [a]))"
    by (simp add: activeAgentCount_filter p(5))
  also have "\<dots> \<le> Suc (length (filter (?P ?cs') (assignments s)))" by simp
  also have "\<dots> = Suc (activeAgentCount ?g s)" by (simp only: old activeAgentCount_filter)
  also have "\<dots> \<le> 3" using c(2) p(3) by simp
  finally have within: "activeAgentCount ?g s' \<le> 3" .
  have others: "activeAgentCount g s' = activeAgentCount g s" if "g \<noteq> ?g"
  proof -
    let ?Q = "\<lambda>cs x. Some (a_agentId x) = g \<and> is_active (x, findById (Some (a_complaintId x)) cs)"
    have "filter (?Q ?cs') (assignments s) = filter (?Q (complaints s)) (assignments s)"
    proof (rule filter_cong [OF refl])
      fix x assume "x \<in> set (assignments s)"
      with p(4) have "a_complaintId x \<noteq> a_complaintId a" by (auto simp: list_ex_iff)
      then show "?Q ?cs' x = ?Q (complaints s) x" by (simp add: findById_update)
    qed
    moreover have "activeAgentCount g s' = length (filter (?Q ?cs') (assignments s @ [a]))"
      by (simp add: activeAgentCount_filter p(5))
    ultimately show ?thesis using that by (auto simp: activeAgentCount_filter)
  qed
  from within have spelled: "length (filter (\<lambda>x. a_agentId x = a_agentId a \<and>
                     (\<exists>c. findById (Some (a_complaintId x)) (complaints s') = Some c \<and>
                          c_status c \<noteq> ''Resolved''))
                   (assignments s')) \<le> 3"
    by (simp add: activeAgentCount_filter is_active_iff)
  from within spelled others p(3) show ?thesis by simp
qed

theorem create_assignment_keeps_agent_within_three_witness:
  "activeAgentCount (Some 10) (busy_server\<lparr>assignments := [mk_assigned 1 10 1, mk_assigned 2 10 2]\<rparr>) = 2 \<and>
   activeAgentCount (Some 10)
     (snd (create_assignment 0 (mk_body 4 10 ''Ravi'')
        (busy_server\<lparr>assignments := [mk_assigned 1 10 1, mk_assigned 2 10 2]\<rparr>))) = 3 \<and>
   activeAgentCount (Some 10) (snd (create_assignment 0 (mk_body 4 11 ''Mina'') busy_server)) =
     activeAgentCount (Some 10) busy_server"
proof -
  let ?s = "busy_server\<lparr>assignments := [mk_assigned 1 10 1, mk_assigned 2 10 2]\<rparr>"
  let ?b = "mk_body 4 10 ''Ravi''"
  let ?a = "\<lparr>a_id = 3, a_agentId = 10, a_complaintId = 4, a_agentName = ''Ravi'',
                 a_status = ''Assigned'', a_assignedAt = 0\<rparr>"
  have f: "fst (create_assignment 0 ?b ?s) = Reply 201 ?a"
    by (simp add: ex_defs q_defs create_assignment_unfold persist_assignment_def save_Assigned_def
        fresh_id_def Let_def)
  then have h: "create_assignment 0 ?b ?s = (Reply 201 ?a, snd (create_assignment 0 ?b ?s))"
    by (metis prod.collapse)
  have le: "activeAgentCount (Some 10) (snd (create_assignment 0 ?b ?s)) \<le> 3"
    using create_assignment_keeps_agent_within_three [OF h, of "Some 11"] by simp
  have ge: "activeAgentCount (Some 10) (snd (create_assignment 0 ?b ?s)) \<ge> 3"
    by (simp add: ex_defs q_defs create_assignment_unfold persist_assignment_def save_Assigned_def
        fresh_id_def Let_def)
  have before: "activeAgentCount (Some 10) ?s = 2"
    by (simp add: ex_defs q_defs)
  let ?b' = "mk_body 4 11 ''Mina''"
  let ?a' = "\<lparr>a_id = 4, a_agentId = 11, a_complaintId = 4, a_agentName = ''Mina'',
                 a_status = ''Assigned'', a_assignedAt = 0\<rparr>"
  have "fst (create_assignment 0 ?b' busy_server) = Reply 201 ?a'"
    by (simp add: ex_defs q_defs create_assignment_unfold persist_assignment_def save_Assigned_def
        fresh_id_def Let_def)
  then have h': "create_assignment 0 ?b' busy_server =
      (Reply 201 ?a', snd (create_assignment 0 ?b' busy_server))"
    by (metis prod.collapse)
  have other: "activeAgentCount (Some 10) (snd (create_assignment 0 ?b' busy_server)) =
     activeAgentCount (Some 10) busy_server"
    using create_assignment_keeps_agent_within_three [OF h', of "Some 10"] by simp
  from le ge before other show ?thesis by simp
qed

text \<open>
  C4. When the two reads found nothing to object to and the unique index on
  \<open>complaintId\<close> then rejects the write (another request stored an assignment for the
  same complaint in between), the caller gets 400 with "Complaint is already assigned to
  an agent", the answer of the duplicate check, not a 500; the call stores nothing and
  emits nothing.
\<close>

theorem duplicate_key_reported_as_already_assigned:
  assumes "findOne_complaintId (b_complaintId b) (assignments s) = None"
    and "activeAgentCount (b_agentId b) s < 3"
    and "save_Assigned now b (assignments (other s)) = Inl DuplicateKey"
  shows "create_assignment_interleaved other now b s =
           (Rejected 400 (Msg ''Complaint is already assigned to an agent''), other s)"
  using assms
  by (simp add: create_assignment_interleaved_def persist_assignment_def already_assigned_def)

theorem duplicate_key_reported_as_already_assigned_witness:
  "save_Assigned 0 (mk_body 4 11 ''Mina'')
     (assignments (busy_server\<lparr>assignments := assignments busy_server @ [mk_assigned 4 12 4]\<rparr>)) =
     Inl DuplicateKey \<and>
   create_assignment_interleaved (\<lambda>x. x\<lparr>assignments := assignments x @ [mk_assigned 4 12 4]\<rparr>)
       0 (mk_body 4 11 ''Mina'') busy_server =
     (Rejected 400 (Msg ''Complaint is already assigned to an agent''),
      busy_server\<lparr>assignments := assignments busy_server @ [mk_assigned 4 12 4]\<rparr>)"
proof -
  let ?other = "\<lambda>x. x\<lparr>assignments := assignments x @ [mk_assigned 4 12 4]\<rparr>"
  let ?b = "mk_body 4 11 ''Mina''"
  have h1: "findOne_complaintId (b_complaintId ?b) (assignments busy_server) = None"
    by (simp add: ex_defs q_defs)
  have h2: "activeAgentCount (b_agentId ?b) busy_server < 3"
    by (simp add: ex_defs q_defs)
  have h3: "save_Assigned 0 ?b (assignments (?other busy_server)) = Inl DuplicateKey"
    by (simp add: ex_defs save_Assigned_def fresh_id_def)
  from duplicate_key_reported_as_already_assigned [of ?b busy_server 0 ?other, OF h1 h2 h3] h3
  show ?thesis by simp
qed

text \<open>
  C9, as stated, fails: a complaint id with no complaint and no assignment does not make
  the call succeed when the agent already has three active assignments.
\<close>

theorem create_assignment_missing_complaint_counterexample:
  "findById (Some 7) (complaints busy_server) = None \<and>
   findOne_complaintId (Some 7) (assignments busy_server) = None \<and>
   create_assignment 0 (mk_body 7 10 ''Ravi'') busy_server =
     (Rejected 400 (Msg ''Agent has reached maximum limit of 3 active assignments''), busy_server)"
  by (simp add: ex_defs q_defs create_assignment_unfold limit_reached_def)

text \<open>
  C9, amended. Create-assignment never checks that the referenced complaint exists: for
  a complaint id with no stored complaint and no stored assignment, an agent below the
  limit of 3 and a request that carries an agent id and a non-empty agent name, the call
  answers 201 with the new assignment and appends it to the store; the complaints are
  unchanged (the status update finds nothing), and the \<open>complaintUpdated\<close> notification
  carries \<open>null\<close>.
\<close>

theorem create_assignment_missing_complaint:
  assumes "b_complaintId b = Some i"
    and "findById (Some i) (complaints s) = None"
    and "findOne_complaintId (Some i) (assignments s) = None"
    and "activeAgentCount (b_agentId b) s < 3"
    and "b_agentId b = Some g"
    and "b_agentName b = Some n"
    and "n \<noteq> []"
  shows "create_assignment now b s =
           (Reply 201 \<lparr>a_id = fresh_id (map a_id (assignments s)), a_agentId = g,
                       a_complaintId = i, a_agentName = n, a_status = ''Assigned'',
                       a_assignedAt = now\<rparr>,
            s\<lparr>assignments := assignments s @
                 [\<lparr>a_id = fresh_id (map a_id (assignments s)), a_agentId = g,
                   a_complaintId = i, a_agentName = n, a_status = ''Assigned'',
                   a_assignedAt = now\<rparr>],
              emitted := emitted s @ [(''complaintUpdated'', PComplaint None)]\<rparr>)"
proof -
  have nodup: "\<not> list_ex (\<lambda>x. a_complaintId x = i) (assignments s)"
    using assms(3) by (simp add: findOne_complaintId_None)
  have same: "findByIdAndUpdate_status (Some i) ''Assigned'' (complaints s) = complaints s"
    using assms(2) by (rule findByIdAndUpdate_status_absent)
  show ?thesis
    using assms nodup
    by (simp add: create_assignment_unfold persist_assignment_def save_Assigned_def Let_def same)
qed

theorem create_assignment_missing_complaint_witness:
  "create_assignment 0 (mk_body 7 11 ''Mina'') busy_server =
     (Reply 201 \<lparr>a_id = 4, a_agentId = 11, a_complaintId = 7, a_agentName = ''Mina'',
                  a_status = ''Assigned'', a_assignedAt = 0\<rparr>,
      busy_server\<lparr>assignments := assignments busy_server @
          [\<lparr>a_id = 4, a_agentId = 11, a_complaintId = 7, a_agentName = ''Mina'',
            a_status = ''Assigned'', a_assignedAt = 0\<rparr>],
        emitted := [(''complaintUpdated'', PComplaint None)]\<rparr>)"
proof -
  let ?b = "mk_body 7 11 ''Mina''"
  have h1: "b_complaintId ?b = Some 7" by (simp add: mk_body_def)
  have h2: "findById (Some 7) (complaints busy_server) = None" by (simp add: ex_defs q_defs)
  have h3: "findOne_complaintId (Some 7) (assignments busy_server) = None"
    by (simp add: ex_defs q_defs)
  have h4: "activeAgentCount (b_agentId ?b) busy_server < 3" by (simp add: ex_defs q_defs)
  have h5: "b_agentId ?b = Some 11" by (simp add: mk_body_def)
  have h6: "b_agentName ?b = Some ''Mina''" by (simp add: mk_body_def)
  have h7: "''Mina'' \<noteq> []" by simp
  have fr: "fresh_id (map a_id (assignments busy_server)) = 4"
    by (simp add: ex_defs fresh_id_def)
  have em: "emitted busy_server = []" by (simp add: ex_defs)
  from create_assignment_missing_complaint [OF h1 h2 h3 h4 h5 h6 h7, of 0]
  show ?thesis by (simp add: fr em)
qed

section \<open>Claims about the active-assignment count\<close>

text \<open>
  C10. The count behind the capacity check, which is also the count that the agent
  listing reports, sees only assignments whose complaint is still stored: it is the
  count of the store without the assignments whose complaint is missing. Deleting a
  complaint keeps its assignment but takes it out of every count. So an agent all of
  whose assignments are orphaned has count 0, and a well-formed request for that agent
  and a complaint id not yet assigned succeeds.
\<close>

theorem orphaned_assignments_do_not_count:
  "activeAgentCount g s =
     activeAgentCount g
       (s\<lparr>assignments :=
            filter (\<lambda>a. findById (Some (a_complaintId a)) (complaints s) \<noteq> None) (assignments s)\<rparr>) \<and>
   (\<exists>vs. get_agents s = (Reply 200 vs, s) \<and>
      map av_id vs = map u_id (filter (\<lambda>u. u_userType u = ''Agent'') (users s)) \<and>
      (\<forall>v \<in> set vs. av_activeAssignments v = activeAgentCount (Some (av_id v)) s)) \<and>
   (distinct (map c_id (complaints s)) \<and> findById (Some i) (complaints s) \<noteq> None \<longrightarrow>
      assignments (snd (delete_complaint i s)) = assignments s \<and>
      activeAgentCount g (snd (delete_complaint i s)) =
        length (filter (\<lambda>a. Some (a_agentId a) = g \<and> a_complaintId a \<noteq> i \<and>
                             is_active (a, findById (Some (a_complaintId a)) (complaints s)))
                  (assignments s))) \<and>
   ((\<forall>a \<in> set (assignments s). Some (a_agentId a) = b_agentId b \<longrightarrow>
        findById (Some (a_complaintId a)) (complaints s) = None) \<and>
    findOne_complaintId (b_complaintId b) (assignments s) = None \<and>
    validate_Assigned (fresh_id (map a_id (assignments s))) now b = Some a \<longrightarrow>
      activeAgentCount (b_agentId b) s = 0 \<and>
      fst (create_assignment now b s) = Reply 201 a \<and>
      assignments (snd (create_assignment now b s)) = assignments s @ [a])"
proof (intro conjI impI)
  show "activeAgentCount g s =
     activeAgentCount g
       (s\<lparr>assignments :=
            filter (\<lambda>a. findById (Some (a_complaintId a)) (complaints s) \<noteq> None) (assignments s)\<rparr>)"
    by (auto simp: activeAgentCount_filter is_active_iff intro!: arg_cong [where f = length] filter_cong)
next
  show "\<exists>vs. get_agents s = (Reply 200 vs, s) \<and>
      map av_id vs = map u_id (filter (\<lambda>u. u_userType u = ''Agent'') (users s)) \<and>
      (\<forall>v \<in> set vs. av_activeAssignments v = activeAgentCount (Some (av_id v)) s)"
    by (auto simp: get_agents_def agent_with_count_def comp_def)
next
  assume h: "distinct (map c_id (complaints s)) \<and> findById (Some i) (complaints s) \<noteq> None"
  then obtain d where d: "findById (Some i) (complaints s) = Some d" by auto
  from d show "assignments (snd (delete_complaint i s)) = assignments s"
    by (simp add: delete_complaint_def)
  from h have fd: "\<And>j. findById (Some j) (findByIdAndDelete i (complaints s)) =
      (if j = i then None else findById (Some j) (complaints s))"
    by (simp add: findById_delete)
  from d show "activeAgentCount g (snd (delete_complaint i s)) =
        length (filter (\<lambda>a. Some (a_agentId a) = g \<and> a_complaintId a \<noteq> i \<and>
                             is_active (a, findById (Some (a_complaintId a)) (complaints s)))
                  (assignments s))"
    by (auto simp: delete_complaint_def activeAgentCount_filter fd
        intro!: arg_cong [where f = length] filter_cong)
next
  assume h: "(\<forall>a \<in> set (assignments s). Some (a_agentId a) = b_agentId b \<longrightarrow>
        findById (Some (a_complaintId a)) (complaints s) = None) \<and>
    findOne_complaintId (b_complaintId b) (assignments s) = None \<and>
    validate_Assigned (fresh_id (map a_id (assignments s))) now b = Some a"
  then have "filter (\<lambda>a. Some (a_agentId a) = b_agentId b \<and>
                is_active (a, findById (Some (a_complaintId a)) (complaints s))) (assignments s) = []"
    by (auto simp: filter_empty_conv)
  then show zero: "activeAgentCount (b_agentId b) s = 0"
    by (simp add: activeAgentCount_filter)
  from h have c: "b_complaintId b = Some (a_complaintId a)"
    by (auto split: option.splits if_splits)
  with h have nodup: "\<not> list_ex (\<lambda>x. a_complaintId x = a_complaintId a) (assignments s)"
    by (simp add: findOne_complaintId_None)
  from h zero nodup show "fst (create_assignment now b s) = Reply 201 a"
    by (simp add: create_assignment_unfold persist_assignment_def save_Assigned_def Let_def)
  from h zero nodup show "assignments (snd (create_assignment now b s)) = assignments s @ [a]"
    by (simp add: create_assignment_unfold persist_assignment_def save_Assigned_def Let_def)
qed

theorem orphaned_assignments_do_not_count_witness:
  "length (find_agentId (Some 10) (assignments orphan_server)) = 3 \<and>
   activeAgentCount (Some 10) orphan_server = 0 \<and>
   fst (create_assignment 0 (mk_body 4 10 ''Ravi'') orphan_server) =
     Reply 201 \<lparr>a_id = 4, a_agentId = 10, a_complaintId = 4, a_agentName = ''Ravi'',
                 a_status = ''Assigned'', a_assignedAt = 0\<rparr> \<and>
   activeAgentCount (Some 10) busy_server = 3 \<and>
   activeAgentCount (Some 10) (snd (delete_complaint 1 busy_server)) = 2 \<and>
   assignments (snd (delete_complaint 1 busy_server)) = assignments busy_server \<and>
   get_agents orphan_server =
     (Reply 200
        [agent_with_count orphan_server (mk_user 10 ''Ravi'' ''ravi@example.org'' ''Agent'')
           \<lparr>av_activeAssignments := 0\<rparr>,
         agent_with_count orphan_server (mk_user 11 ''Mina'' ''mina@example.org'' ''Agent'')
           \<lparr>av_activeAssignments := 0\<rparr>],
      orphan_server)"
proof -
  have ga: "get_agents orphan_server =
     (Reply 200
        [agent_with_count orphan_server (mk_user 10 ''Ravi'' ''ravi@example.org'' ''Agent'')
           \<lparr>av_activeAssignments := 0\<rparr>,
         agent_with_count orphan_server (mk_user 11 ''Mina'' ''mina@example.org'' ''Agent'')
           \<lparr>av_activeAssignments := 0\<rparr>],
      orphan_server)"
    by (simp add: get_agents_def agent_with_count_def orphan_server_def delete_complaint_def
        ex_defs q_defs)
  let ?b = "mk_body 4 10 ''Ravi''"
  let ?a = "\<lparr>a_id = 4, a_agentId = 10, a_complaintId = 4, a_agentName = ''Ravi'',
                 a_status = ''Assigned'', a_assignedAt = 0\<rparr>"
  have os: "orphan_server = busy_server\<lparr>complaints := [mk_complaint 4 ''Pending''],
      emitted := [(''complaintDeleted'', PId 1), (''complaintDeleted'', PId 2),
                  (''complaintDeleted'', PId 3)]\<rparr>"
    by (simp add: orphan_server_def delete_complaint_def ex_defs q_defs)
  have n3: "length (find_agentId (Some 10) (assignments orphan_server)) = 3"
    by (simp add: os ex_defs q_defs)
  have h1: "\<forall>a \<in> set (assignments orphan_server). Some (a_agentId a) = b_agentId ?b \<longrightarrow>
        findById (Some (a_complaintId a)) (complaints orphan_server) = None"
    by (simp add: os ex_defs q_defs)
  have h2: "findOne_complaintId (b_complaintId ?b) (assignments orphan_server) = None"
    by (simp add: os ex_defs q_defs)
  have h3: "validate_Assigned (fresh_id (map a_id (assignments orphan_server))) 0 ?b = Some ?a"
    by (simp add: os ex_defs fresh_id_def)
  have h4: "distinct (map c_id (complaints busy_server)) \<and>
            findById (Some 1) (complaints busy_server) \<noteq> None"
    by (simp add: ex_defs q_defs)
  have before: "activeAgentCount (Some 10) busy_server = 3"
    by (simp add: ex_defs q_defs)
  from orphaned_assignments_do_not_count [of "Some 10" orphan_server 1 ?b 0 ?a] h1 h2 h3
  have a: "activeAgentCount (b_agentId ?b) orphan_server = 0 \<and>
           fst (create_assignment 0 ?b orphan_server) = Reply 201 ?a"
    by blast
  from orphaned_assignments_do_not_count [of "Some 10" busy_server 1 ?b 0 ?a] h4
  have "assignments (snd (delete_complaint 1 busy_server)) = assignments busy_server \<and>
      activeAgentCount (Some 10) (snd (delete_complaint 1 busy_server)) =
        length (filter (\<lambda>a. Some (a_agentId a) = Some 10 \<and> a_complaintId a \<noteq> 1 \<and>
                             is_active (a, findById (Some (a_complaintId a)) (complaints busy_server)))
                  (assignments busy_server))"
    by blast
  moreover have "length (filter (\<lambda>a. Some (a_agentId a) = Some 10 \<and> a_complaintId a \<noteq> 1 \<and>
                             is_active (a, findById (Some (a_complaintId a)) (complaints busy_server)))
                  (assignments busy_server)) = 2"
    by (simp add: ex_defs q_defs)
  ultimately have d: "assignments (snd (delete_complaint 1 busy_server)) = assignments busy_server \<and>
      activeAgentCount (Some 10) (snd (delete_complaint 1 busy_server)) = 2"
    by simp
  from n3 a before d ga show ?thesis by (simp add: mk_body_def)
qed

section \<open>Claims about feedback\<close>

text \<open>
  C7, as stated for the integer range, fails: the schema bounds the number and does not
  ask for an integer. The rating 4.5 is not one of 1, 2, 3, 4, 5, and it is stored.
\<close>

theorem create_feedback_rating_bounds_counterexample:
  "(9 / 2 :: rat) \<notin> \<int> \<and>
   create_feedback 0 \<lparr>fb_complaintId = Some 1, fb_rating = Some (9 / 2), fb_comment = None\<rparr>
       [(''id'', JId 100), (''userType'', JStr ''Customer'')] busy_server =
     (Reply 201 \<lparr>f_id = 1, f_userId = 100, f_complaintId = 1, f_agentId = Some 10,
                  f_rating = 9 / 2, f_comment = None, f_createdAt = 0\<rparr>,
      busy_server\<lparr>feedbacks :=
        [\<lparr>f_id = 1, f_userId = 100, f_complaintId = 1, f_agentId = Some 10,
          f_rating = 9 / 2, f_comment = None, f_createdAt = 0\<rparr>]\<rparr>)"
proof -
  have "(9 / 2 :: rat) \<notin> \<int>"
  proof
    assume "(9 / 2 :: rat) \<in> \<int>"
    then obtain k :: int where "(9 / 2 :: rat) = of_int k" by (auto elim: Ints_cases)
    then have "(of_int (2 * k) :: rat) = of_int 9" by simp
    then have "2 * k = 9" by (simp only: of_int_eq_iff)
    then show False by presburger
  qed
  moreover have "feedbacks busy_server = []" by (simp add: ex_defs)
  ultimately show ?thesis
    by (simp add: create_feedback_def Let_def fresh_id_def ex_defs q_defs)
qed

text \<open>
  C7, amended. Create-feedback answers with an error and leaves the store unchanged when
  the rating is missing, below 1 or above 5 (rating 6, for example). A feedback that is
  stored has a rating between 1 and 5, so a store whose feedbacks all have ratings
  between 1 and 5 keeps that property.
\<close>

theorem create_feedback_rating_bounds:
  "((fb_rating b = None \<or> (\<exists>r. fb_rating b = Some r \<and> (r < 1 \<or> 5 < r))) \<longrightarrow>
      create_feedback now b decoded s = (Rejected 500 (Thrown ValidationError), s)) \<and>
   (create_feedback now b decoded s = (Reply code f, s') \<longrightarrow>
      code = 201 \<and> fb_rating b = Some (f_rating f) \<and> 1 \<le> f_rating f \<and> f_rating f \<le> 5 \<and>
      s' = s\<lparr>feedbacks := feedbacks s @ [f]\<rparr>) \<and>
   ((\<forall>x \<in> set (feedbacks s). 1 \<le> f_rating x \<and> f_rating x \<le> 5) \<longrightarrow>
      (\<forall>x \<in> set (feedbacks (snd (create_feedback now b decoded s))).
          1 \<le> f_rating x \<and> f_rating x \<le> 5))"
proof (intro conjI impI)
  assume "fb_rating b = None \<or> (\<exists>r. fb_rating b = Some r \<and> (r < 1 \<or> 5 < r))"
  then have "validate_Feedback nid now u g b = None" for nid u g
    by (auto split: option.splits jval.splits)
  then show "create_feedback now b decoded s = (Rejected 500 (Thrown ValidationError), s)"
    by (simp add: create_feedback_def Let_def)
next
  assume ok: "create_feedback now b decoded s = (Reply code f, s')"
  then show "code = 201" and "fb_rating b = Some (f_rating f)"
    and "1 \<le> f_rating f" and "f_rating f \<le> 5"
    and "s' = s\<lparr>feedbacks := feedbacks s @ [f]\<rparr>"
    by (auto simp: create_feedback_def Let_def split: option.splits jval.splits if_splits)
next
  assume inv: "\<forall>x \<in> set (feedbacks s). 1 \<le> f_rating x \<and> f_rating x \<le> 5"
  show "\<forall>x \<in> set (feedbacks (snd (create_feedback now b decoded s))).
          1 \<le> f_rating x \<and> f_rating x \<le> 5"
  proof (cases "validate_Feedback (fresh_id (map f_id (feedbacks s))) now (map_of decoded ''id'')
      (case findOne_complaintId (fb_complaintId b) (assignments s) of
         None \<Rightarrow> None | Some a \<Rightarrow> Some (a_agentId a)) b")
    case None
    with inv show ?thesis by (simp add: create_feedback_def Let_def)
  next
    case (Some f)
    then have "1 \<le> f_rating f \<and> f_rating f \<le> 5"
      by (auto split: option.splits jval.splits if_splits)
    with Some inv show ?thesis by (auto simp: create_feedback_def Let_def)
  qed
qed

theorem create_feedback_rating_bounds_witness:
  "create_feedback 0 \<lparr>fb_complaintId = Some 1, fb_rating = Some 6, fb_comment = Some ''ok''\<rparr>
       [(''id'', JId 100), (''userType'', JStr ''Customer'')] busy_server =
     (Rejected 500 (Thrown ValidationError), busy_server) \<and>
   create_feedback 0 \<lparr>fb_complaintId = Some 1, fb_rating = Some 5, fb_comment = Some ''ok''\<rparr>
       [(''id'', JId 100), (''userType'', JStr ''Customer'')] busy_server =
     (Reply 201 \<lparr>f_id = 1, f_userId = 100, f_complaintId = 1, f_agentId = Some 10,
                  f_rating = 5, f_comment = Some ''ok'', f_createdAt = 0\<rparr>,
      busy_server\<lparr>feedbacks :=
        [\<lparr>f_id = 1, f_userId = 100, f_complaintId = 1, f_agentId = Some 10,
          f_rating = 5, f_comment = Some ''ok'', f_createdAt = 0\<rparr>]\<rparr>) \<and>
   list_all (\<lambda>x. 1 \<le> f_rating x \<and> f_rating x \<le> 5)
     (feedbacks (snd (create_feedback 0
        \<lparr>fb_complaintId = Some 2, fb_rating = Some 3, fb_comment = None\<rparr>
        [(''id'', JId 100), (''userType'', JStr ''Customer'')]
        (busy_server\<lparr>feedbacks :=
           [\<lparr>f_id = 1, f_userId = 100, f_complaintId = 1, f_agentId = Some 10,
             f_rating = 5, f_comment = Some ''ok'', f_createdAt = 0\<rparr>]\<rparr>))))"
proof -
  let ?d = "[(''id'', JId 100), (''userType'', JStr ''Customer'')]"
  let ?b6 = "\<lparr>fb_complaintId = Some 1, fb_rating = Some 6, fb_comment = Some ''ok''\<rparr>"
  let ?b5 = "\<lparr>fb_complaintId = Some 1, fb_rating = Some 5, fb_comment = Some ''ok''\<rparr>"
  let ?f = "\<lparr>f_id = 1, f_userId = 100, f_complaintId = 1, f_agentId = Some 10,
                  f_rating = 5, f_comment = Some ''ok'', f_createdAt = 0\<rparr>"
  have h1: "fb_rating ?b6 = None \<or> (\<exists>r. fb_rating ?b6 = Some r \<and> (r < 1 \<or> 5 < r))"
    by simp
  have fb: "feedbacks busy_server = []" by (simp add: ex_defs)
  have h2: "create_feedback 0 ?b5 ?d busy_server =
      (Reply 201 ?f, snd (create_feedback 0 ?b5 ?d busy_server))"
    by (simp add: create_feedback_def Let_def fresh_id_def ex_defs q_defs)
  from create_feedback_rating_bounds [of ?b6 0 ?d busy_server] h1
  have r6: "create_feedback 0 ?b6 ?d busy_server = (Rejected 500 (Thrown ValidationError), busy_server)"
    by blast
  from create_feedback_rating_bounds [of ?b5 0 ?d busy_server 201 ?f
      "snd (create_feedback 0 ?b5 ?d busy_server)"] h2
  have "snd (create_feedback 0 ?b5 ?d busy_server) =
      busy_server\<lparr>feedbacks := feedbacks busy_server @ [?f]\<rparr>"
    by blast
  with h2 have r5: "create_feedback 0 ?b5 ?d busy_server =
      (Reply 201 ?f, busy_server\<lparr>feedbacks := feedbacks busy_server @ [?f]\<rparr>)"
    by simp
  let ?s1 = "busy_server\<lparr>feedbacks := [?f]\<rparr>"
  let ?b3 = "\<lparr>fb_complaintId = Some 2, fb_rating = Some 3, fb_comment = None\<rparr>"
  have h3: "\<forall>x \<in> set (feedbacks ?s1). 1 \<le> f_rating x \<and> f_rating x \<le> 5" by simp
  from create_feedback_rating_bounds [of ?b3 0 ?d ?s1] h3
  have "\<forall>x \<in> set (feedbacks (snd (create_feedback 0 ?b3 ?d ?s1))).
          1 \<le> f_rating x \<and> f_rating x \<le> 5"
    by blast
  then have r3: "list_all (\<lambda>x. 1 \<le> f_rating x \<and> f_rating x \<le> 5)
      (feedbacks (snd (create_feedback 0 ?b3 ?d ?s1)))"
    by (simp only: list_all_iff)
  from r6 r5 r3 show ?thesis by (simp add: fb)
qed

section \<open>Claims about tokens and the unread model\<close>

text \<open>
  C8. A token issued by register or by login is signed over the user's id and userType
  (and the issue and expiry times) only; the display name, which the same response
  returns next to the token, is not in it. So whenever \<open>auth\<close> accepts such a token,
  \<open>req.user.name\<close> is undefined, mark-read marks every message of the complaint read
  whoever sent it, and unread-counts counts every unread message whoever sent it: the
  caller's name plays no part in either.
\<close>

theorem issued_tokens_carry_no_name:
  assumes "register hash now rb s = (Reply code r, s') \<or>
           login compare now lb s = (Reply code r, s')"
  shows "(\<exists>u \<in> set (users s'). u_id u = ar_id r \<and> u_name u = ar_name r) \<and>
         ar_token r =
           Jwt ''SECRET_KEY'' [(''id'', JId (ar_id r)), (''userType'', JStr (ar_userType r)),
                               (''iat'', JNum (now div 1000)),
                               (''exp'', JNum (now div 1000 + 3600))] \<and>
         (auth now' (Some (Token (ar_token r))) = Inr decoded \<longrightarrow>
            req_user_name decoded = None \<and>
            api_mark_read now' (Some (Token (ar_token r))) c t =
              (Reply 200 True,
               t\<lparr>messages := map (\<lambda>m. if m_complaintId m = c then m\<lparr>m_read := True\<rparr> else m)
                                  (messages t)\<rparr>) \<and>
            api_unread_counts now' (Some (Token (ar_token r))) t =
              (Reply 200
                 (\<lambda>C. let n = length (filter (\<lambda>m. m_complaintId m = C \<and> m_read m = False)
                                         (messages t))
                       in if n = 0 then None else Some n),
               t))"
proof -
  from assms obtain u where u: "u \<in> set (users s')"
    and r: "r = \<lparr>ar_token = issue_token u now, ar_id = u_id u, ar_name = u_name u,
                  ar_userType = u_userType u\<rparr>"
  proof
    assume "register hash now rb s = (Reply code r, s')"
    from register_Reply [OF this] obtain u where "s' = s\<lparr>users := users s @ [u]\<rparr>"
      and "r = \<lparr>ar_token = issue_token u now, ar_id = u_id u, ar_name = u_name u,
                  ar_userType = u_userType u\<rparr>"
      by blast
    then show ?thesis by (intro that [of u]) simp_all
  next
    assume "login compare now lb s = (Reply code r, s')"
    from login_Reply [OF this] obtain u where "u \<in> set (users s)" and "s' = s"
      and "r = \<lparr>ar_token = issue_token u now, ar_id = u_id u, ar_name = u_name u,
                  ar_userType = u_userType u\<rparr>"
      by blast
    then show ?thesis by (intro that [of u]) simp_all
  qed
  have user: "\<exists>u \<in> set (users s'). u_id u = ar_id r \<and> u_name u = ar_name r"
    using u r by auto
  have tok: "ar_token r =
           Jwt ''SECRET_KEY'' [(''id'', JId (ar_id r)), (''userType'', JStr (ar_userType r)),
                               (''iat'', JNum (now div 1000)),
                               (''exp'', JNum (now div 1000 + 3600))]"
    by (simp add: r issue_token_payload)
  have calls: "req_user_name decoded = None \<and>
            api_mark_read now' (Some (Token (ar_token r))) c t =
              (Reply 200 True,
               t\<lparr>messages := map (\<lambda>m. if m_complaintId m = c then m\<lparr>m_read := True\<rparr> else m)
                                  (messages t)\<rparr>) \<and>
            api_unread_counts now' (Some (Token (ar_token r))) t =
              (Reply 200
                 (\<lambda>C. let n = length (filter (\<lambda>m. m_complaintId m = C \<and> m_read m = False)
                                         (messages t))
                       in if n = 0 then None else Some n),
               t)"
    if a: "auth now' (Some (Token (ar_token r))) = Inr decoded"
  proof -
    from a have n: "req_user_name decoded = None"
      by (simp add: r auth_issue_token)
    have m: "api_mark_read now' (Some (Token (ar_token r))) c t =
              (Reply 200 True,
               t\<lparr>messages := map (\<lambda>m. if m_complaintId m = c then m\<lparr>m_read := True\<rparr> else m)
                                  (messages t)\<rparr>)"
      by (simp add: api_mark_read_def with_auth_Inr [OF a] mark_read_def n updateMany_read_undefined)
    have k: "api_unread_counts now' (Some (Token (ar_token r))) t =
              (Reply 200
                 (\<lambda>C. let n = length (filter (\<lambda>m. m_complaintId m = C \<and> m_read m = False)
                                         (messages t))
                       in if n = 0 then None else Some n),
               t)"
      by (simp add: api_unread_counts_def with_auth_Inr [OF a] unread_counts_value n
          ne_name_unread_def cong: if_cong)
    from n m k show ?thesis by simp
  qed
  from user tok calls show ?thesis by blast
qed

theorem issued_tokens_carry_no_name_witness:
  "fst (register toy_hash 0
          \<lparr>rb_name = Some ''Kiran'', rb_email = Some ''kiran@example.org'',
           rb_password = Some ''pw'', rb_phone = Some ''9111111111'', rb_userType = None\<rparr>
          busy_server) =
     Reply 201
       \<lparr>ar_token = Jwt ''SECRET_KEY'' [(''id'', JId 101), (''userType'', JStr ''Customer''),
                                        (''iat'', JNum 0), (''exp'', JNum 3600)],
        ar_id = 101, ar_name = ''Kiran'', ar_userType = ''Customer''\<rparr> \<and>
   messages (snd (api_mark_read 5000
       (Some (Token (Jwt ''SECRET_KEY'' [(''id'', JId 101), (''userType'', JStr ''Customer''),
                                         (''iat'', JNum 0), (''exp'', JNum 3600)])))
       1 chat_server)) =
     [mk_message 1 1 ''Asha'' True, mk_message 2 1 ''Ravi'' True,
      mk_message 3 2 ''Asha'' False, mk_message 4 2 ''Ravi'' True] \<and>
   fst (login toy_compare 0 \<lparr>lb_email = Some ''asha@example.org'', lb_password = Some ''secret''\<rparr>
          chat_server) =
     Reply 200
       \<lparr>ar_token = Jwt ''SECRET_KEY'' [(''id'', JId 100), (''userType'', JStr ''Customer''),
                                        (''iat'', JNum 0), (''exp'', JNum 3600)],
        ar_id = 100, ar_name = ''Asha'', ar_userType = ''Customer''\<rparr>"
proof -
  let ?rb = "\<lparr>rb_name = Some ''Kiran'', rb_email = Some ''kiran@example.org'',
           rb_password = Some ''pw'', rb_phone = Some ''9111111111'', rb_userType = None\<rparr>"
  let ?tok = "Jwt ''SECRET_KEY'' [(''id'', JId 101), (''userType'', JStr ''Customer''),
                                        (''iat'', JNum 0), (''exp'', JNum 3600)]"
  let ?r = "\<lparr>ar_token = ?tok, ar_id = 101, ar_name = ''Kiran'', ar_userType = ''Customer''\<rparr>"
  let ?lb = "\<lparr>lb_email = Some ''asha@example.org'', lb_password = Some ''secret''\<rparr>"
  let ?tok' = "Jwt ''SECRET_KEY'' [(''id'', JId 100), (''userType'', JStr ''Customer''),
                                        (''iat'', JNum 0), (''exp'', JNum 3600)]"
  let ?r' = "\<lparr>ar_token = ?tok', ar_id = 100, ar_name = ''Asha'', ar_userType = ''Customer''\<rparr>"
  have f: "fst (register toy_hash 0 ?rb busy_server) = Reply 201 ?r"
    by (simp add: register_def save_User_def fresh_id_def issue_token_payload ex_defs)
  then have h1: "register toy_hash 0 ?rb busy_server =
      (Reply 201 ?r, snd (register toy_hash 0 ?rb busy_server)) \<or>
     login toy_compare 0 ?lb busy_server = (Reply 201 ?r, snd (register toy_hash 0 ?rb busy_server))"
    by (metis prod.collapse)
  have h2: "auth 5000 (Some (Token (ar_token ?r))) = Inr [(''id'', JId 101),
      (''userType'', JStr ''Customer''), (''iat'', JNum 0), (''exp'', JNum 3600)]"
    by simp
  from issued_tokens_carry_no_name [OF h1, of 5000 _ 1 chat_server] h2
  have "api_mark_read 5000 (Some (Token (ar_token ?r))) 1 chat_server =
      (Reply 200 True,
       chat_server\<lparr>messages := map (\<lambda>m. if m_complaintId m = 1 then m\<lparr>m_read := True\<rparr> else m)
                                  (messages chat_server)\<rparr>)"
    by blast
  then have m: "messages (snd (api_mark_read 5000 (Some (Token ?tok)) 1 chat_server)) =
      map (\<lambda>m. if m_complaintId m = 1 then m\<lparr>m_read := True\<rparr> else m) (messages chat_server)"
    by simp
  have v: "map (\<lambda>m. if m_complaintId m = 1 then m\<lparr>m_read := True\<rparr> else m) (messages chat_server) =
     [mk_message 1 1 ''Asha'' True, mk_message 2 1 ''Ravi'' True,
      mk_message 3 2 ''Asha'' False, mk_message 4 2 ''Ravi'' True]"
    by (simp add: ex_defs)
  have l: "fst (login toy_compare 0 ?lb chat_server) = Reply 200 ?r'"
    by (simp add: login_def issue_token_payload ex_defs)
  then have h3: "register toy_hash 0 ?rb chat_server = (Reply 200 ?r', chat_server) \<or>
     login toy_compare 0 ?lb chat_server = (Reply 200 ?r', chat_server)"
    by (simp add: login_def ex_defs)
  from issued_tokens_carry_no_name [OF h3]
  have "ar_token ?r' = ?tok'" by simp
  with f m v l show ?thesis by simp
qed

text \<open>
  C5 fails on the running server. Asha logs in and marks complaint 1 read with the token
  she was given. Her own unread message on that complaint ends up read, where the claim
  leaves messages sent under the caller's name unchanged; the last line shows what the
  same filter does when it is handed her name. The defect is the one of C8: the token
  carries no name, so \<open>req.user.name\<close> is undefined.
\<close>

theorem mark_read_with_login_token_marks_own_messages:
  "login toy_compare 0 \<lparr>lb_email = Some ''asha@example.org'', lb_password = Some ''secret''\<rparr>
       chat_server =
     (Reply 200 \<lparr>ar_token = issue_token asha 0, ar_id = 100, ar_name = ''Asha'',
                 ar_userType = ''Customer''\<rparr>, chat_server) \<and>
   api_mark_read 1000 (Some (Token (issue_token asha 0))) 1 chat_server =
     (Reply 200 True,
      chat_server\<lparr>messages :=
        [mk_message 1 1 ''Asha'' True, mk_message 2 1 ''Ravi'' True,
         mk_message 3 2 ''Asha'' False, mk_message 4 2 ''Ravi'' True]\<rparr>) \<and>
   updateMany_read 1 (Some (JStr ''Asha'')) (messages chat_server) =
     [mk_message 1 1 ''Asha'' False, mk_message 2 1 ''Ravi'' True,
      mk_message 3 2 ''Asha'' False, mk_message 4 2 ''Ravi'' True]"
  by (simp add: login_def api_mark_read_def with_auth_def mark_read_def req_user_name_def
      updateMany_read_def ne_cast_name_unread_def issue_token_payload ex_defs)

text \<open>
  C6 fails on the running server for the same reason. With the token Asha was given at
  login, unread-counts reports 2 for complaint 1 and 1 for complaint 2: her own unread
  messages are counted. By the claim the value for complaint 1 is 1 and complaint 2 is
  absent, which is what the aggregation returns when the payload does carry her name
  (last line). The aggregation does run over the whole store, as the claim says.
\<close>

theorem unread_counts_with_login_token_count_own_messages:
  "api_unread_counts 1000 (Some (Token (issue_token asha 0))) chat_server =
     (Reply 200 [1 \<mapsto> 2, 2 \<mapsto> 1], chat_server) \<and>
   unread_counts [(''id'', JId 100), (''userType'', JStr ''Customer''), (''name'', JStr ''Asha'')]
       chat_server =
     (Reply 200 [1 \<mapsto> 1], chat_server)"
  by (simp add: api_unread_counts_def with_auth_def unread_counts_def aggregate_unread_def
      group_count_def req_user_name_def ne_name_unread_def issue_token_payload Let_def ex_defs
      numeral_2_eq_2 [symmetric])

end
